theory Spec2Isabelle
  imports Main "HOL-Library.Monad_Syntax"
begin

section \<open>The platform the client runs on\<close>

text \<open>
  The client is TypeScript on top of the Fetch API. The model follows the source at the
  level of its declared types: an interface is a record, an optional field
  (\<^verbatim>\<open>code?: string\<close>) is an \<open>option\<close> whose \<open>None\<close> is \<^verbatim>\<open>undefined\<close> (in an \<^verbatim>\<open>ErrorBody\<close>, which
  the client reads through \<^verbatim>\<open>?.\<close> and \<^verbatim>\<open>??\<close> only, \<open>None\<close> is \<^verbatim>\<open>undefined\<close> or \<^verbatim>\<open>null\<close>), a thrown
  exception is the left summand of a result. What the platform supplies (\<^verbatim>\<open>fetch\<close>,
  \<^verbatim>\<open>Response\<close>, \<^verbatim>\<open>Headers\<close>, \<^verbatim>\<open>URLSearchParams\<close>, \<^verbatim>\<open>parseInt\<close>, \<^verbatim>\<open>String\<close>) is described in
  this section. The JavaScript type \<^verbatim>\<open>number\<close> is the type variable \<open>'n\<close>; the two
  platform functions that produce or print numbers, \<^verbatim>\<open>parseInt\<close> and \<^verbatim>\<open>String\<close>, are
  arguments of the functions that call them, so that nothing proved below depends on how
  a double is parsed or printed.
\<close>

subsection \<open>Values thrown by the platform\<close>

text \<open>
  A value thrown by \<^verbatim>\<open>fetch\<close> or by \<^verbatim>\<open>response.json()\<close>: an instance of \<^verbatim>\<open>Error\<close> with its
  \<^verbatim>\<open>message\<close> (a \<^verbatim>\<open>TypeError\<close>, a \<^verbatim>\<open>SyntaxError\<close>), or any other thrown value.
\<close>

datatype js_thrown = ErrorInstance string | NotAnError string

subsection \<open>Strings\<close>

text \<open>\<^verbatim>\<open>s.includes(p)\<close>: \<open>p\<close> occurs in \<open>s\<close> as a contiguous, case-sensitive substring.\<close>

fun startsWith :: "string \<Rightarrow> string \<Rightarrow> bool" where
  "startsWith s [] = True"
| "startsWith [] (p # ps) = False"
| "startsWith (c # cs) (p # ps) = (c = p \<and> startsWith cs ps)"

fun str_includes :: "string \<Rightarrow> string \<Rightarrow> bool" where
  "str_includes [] p = (p = [])"
| "str_includes (c # cs) p = (startsWith (c # cs) p \<or> str_includes cs p)"

text \<open>A string is truthy when it is not empty.\<close>

definition truthy :: "string \<Rightarrow> bool" where
  "truthy s = (s \<noteq> [])"

text \<open>
  \<^verbatim>\<open>s.replace(/\/+$/, '')\<close>: the only match of the pattern is the maximal run of slashes
  at the end of the string; it is replaced by the empty string.
\<close>

definition strip_trailing_slashes :: "string \<Rightarrow> string" where
  "strip_trailing_slashes s = rev (dropWhile (\<lambda>c. c = CHR ''/'') (rev s))"

text \<open>
  The decimal numeral of a natural number, as a template literal prints an integer
  (here the HTTP status, an unsigned 16-bit integer).
\<close>

fun String_nat :: "nat \<Rightarrow> string" where
  "String_nat n =
     (if n < 10 then [''0123456789'' ! n]
      else String_nat (n div 10) @ [''0123456789'' ! (n mod 10)])"

subsection \<open>URLSearchParams\<close>

text \<open>
  A \<^verbatim>\<open>URLSearchParams\<close> object is its list of name-value pairs. \<^verbatim>\<open>set\<close> overwrites the
  first pair of that name and removes the others, or appends a new pair. \<^verbatim>\<open>toString\<close>
  is the \<^verbatim>\<open>application/x-www-form-urlencoded\<close> serialiser: bytes other than ASCII
  letters, digits and \<^verbatim>\<open>* - . _\<close> are percent-encoded, a space becomes \<^verbatim>\<open>+\<close>, and the pairs
  \<^verbatim>\<open>name=value\<close> are joined by \<^verbatim>\<open>&\<close>.
\<close>

type_synonym URLSearchParams = "(string \<times> string) list"

definition new_URLSearchParams :: URLSearchParams where
  "new_URLSearchParams = []"

fun usp_set :: "URLSearchParams \<Rightarrow> string \<Rightarrow> string \<Rightarrow> URLSearchParams" where
  "usp_set [] k v = [(k, v)]"
| "usp_set ((k', v') # ps) k v =
     (if k' = k then (k, v) # filter (\<lambda>p. fst p \<noteq> k) ps else (k', v') # usp_set ps k v)"

definition urlencoded_keep :: "char \<Rightarrow> bool" where
  "urlencoded_keep c =
     (let n = (of_char c :: nat) in
      (48 \<le> n \<and> n \<le> 57) \<or> (65 \<le> n \<and> n \<le> 90) \<or> (97 \<le> n \<and> n \<le> 122) \<or>
      n = 42 \<or> n = 45 \<or> n = 46 \<or> n = 95)"

definition urlencoded_byte :: "char \<Rightarrow> string" where
  "urlencoded_byte c =
     (if c = CHR '' '' then ''+''
      else if urlencoded_keep c then [c]
      else [CHR ''%'', ''0123456789ABCDEF'' ! ((of_char c :: nat) div 16),
            ''0123456789ABCDEF'' ! ((of_char c :: nat) mod 16)])"

definition urlencode :: "string \<Rightarrow> string" where
  "urlencode s = concat (map urlencoded_byte s)"

fun usp_toString :: "URLSearchParams \<Rightarrow> string" where
  "usp_toString [] = []"
| "usp_toString [(k, v)] = urlencode k @ ''='' @ urlencode v"
| "usp_toString ((k, v) # p # ps) =
     urlencode k @ ''='' @ urlencode v @ ''&'' @ usp_toString (p # ps)"

subsection \<open>A concrete number type for the examples\<close>

text \<open>
  The integers and \<^verbatim>\<open>NaN\<close>, with \<^verbatim>\<open>parseInt(s, 10)\<close> and \<^verbatim>\<open>String(n)\<close> on them: white space
  is skipped, a sign is read, then the longest run of decimal digits; no digit gives
  \<^verbatim>\<open>NaN\<close>. Only radix 10, the one the client passes, is covered. This instance agrees with
  JavaScript on ASCII input and on the integers a double represents exactly and prints in
  plain decimal; it is used to evaluate the client on concrete inputs. The theorems hold
  for every \<^verbatim>\<open>parseInt\<close> and \<^verbatim>\<open>String\<close>.
\<close>

datatype number = Num int | NaN

instantiation number :: zero
begin

definition zero_number :: number where
  "zero_number = Num 0"

instance ..

end

definition is_digit :: "char \<Rightarrow> bool" where
  "is_digit c = (48 \<le> (of_char c :: nat) \<and> (of_char c :: nat) \<le> 57)"

definition is_space :: "char \<Rightarrow> bool" where
  "is_space c = ((of_char c :: nat) \<in> {9, 10, 11, 12, 13, 32})"

definition digits_value :: "string \<Rightarrow> int" where
  "digits_value ds = foldl (\<lambda>acc c. 10 * acc + (int (of_char c) - 48)) 0 ds"

definition parse_digits :: "string \<Rightarrow> int option" where
  "parse_digits s =
     (let ds = takeWhile is_digit s in if ds = [] then None else Some (digits_value ds))"

definition parseInt_number :: "string \<Rightarrow> nat \<Rightarrow> number" where
  "parseInt_number s radix =
     (if radix \<noteq> 10 then NaN
      else
        (case dropWhile is_space s of
           [] \<Rightarrow> NaN
         | c # cs \<Rightarrow>
             if c = CHR ''-'' then (case parse_digits cs of None \<Rightarrow> NaN | Some v \<Rightarrow> Num (- v))
             else if c = CHR ''+'' then (case parse_digits cs of None \<Rightarrow> NaN | Some v \<Rightarrow> Num v)
             else (case parse_digits (c # cs) of None \<Rightarrow> NaN | Some v \<Rightarrow> Num v)))"

fun String_number :: "number \<Rightarrow> string" where
  "String_number NaN = ''NaN''"
| "String_number (Num i) = (if i < 0 then ''-'' @ String_nat (nat (- i)) else String_nat (nat i))"

subsection \<open>Response and fetch\<close>

text \<open>
  The body interface that \<^verbatim>\<open>handleErrorResponse\<close> declares:
  \<^verbatim>\<open>interface ErrorBody { error?: { code?: string; message?: string; retryAfter?: number } }\<close>.
\<close>

record 'n ErrorDetail =
  code :: "string option"
  message :: "string option"
  retryAfter :: "'n option"

record 'n ErrorBody =
  error :: "'n ErrorDetail option"

text \<open>
  \<^verbatim>\<open>response.json()\<close> resolves to a value of type \<^verbatim>\<open>any\<close>, which the client reads under a type
  assertion: \<^verbatim>\<open>as T\<close> in \<^verbatim>\<open>request\<close> and \<^verbatim>\<open>as ErrorBody\<close> in \<^verbatim>\<open>handleErrorResponse\<close>. A parsed
  body is modelled by what it is at these two types. Read as an \<^verbatim>\<open>ErrorBody\<close>, a body without
  an \<^verbatim>\<open>error\<close> property (also a body that is \<^verbatim>\<open>null\<close> or not an object) has \<open>error = None\<close>. A
  payload whose fields do not have the asserted types is outside this model (the assertion
  is not checked at run time).
\<close>

datatype ('t, 'n) any = Any (as_T: 't) (as_ErrorBody: "'n ErrorBody")

text \<open>
  A \<^verbatim>\<open>Response\<close>: its status, \<^verbatim>\<open>headers.get\<close> (\<open>None\<close> is \<^verbatim>\<open>null\<close>; names are lower case),
  and the outcome of \<^verbatim>\<open>json()\<close>, which throws when the body is not JSON text.
\<close>

record ('t, 'n) Response =
  status :: nat
  headers :: "string \<Rightarrow> string option"
  json :: "js_thrown + ('t, 'n) any"

definition ok :: "('t, 'n) Response \<Rightarrow> bool" where
  "ok response = (200 \<le> Response.status response \<and> Response.status response \<le> 299)"

text \<open>
  The options object of \<^verbatim>\<open>fetch\<close>; \<open>httpMethod\<close> is its \<^verbatim>\<open>method\<close> property (the word is
  reserved in Isabelle).
\<close>

record RequestInit =
  httpMethod :: string
  headers :: "(string \<times> string) list"

text \<open>\<^verbatim>\<open>fetch(url, init)\<close> resolves to a response or rejects with a thrown value.\<close>

type_synonym ('t, 'n) fetch = "string \<Rightarrow> RequestInit \<Rightarrow> js_thrown + ('t, 'n) Response"

section \<open>errors.ts\<close>

text \<open>
  The two error classes. \<open>retryAfter\<close> is \<open>None\<close> on an object that is not a
  \<^verbatim>\<open>RateLimitError\<close> (the property does not exist); \<open>name\<close> tells the class.
\<close>

record 'n RamarisError =
  name :: string
  message :: string
  code :: string
  status :: nat
  retryAfter :: "'n option"

definition new_RamarisError :: "string \<Rightarrow> string \<Rightarrow> nat \<Rightarrow> 'n RamarisError" where
  "new_RamarisError msg c st =
     \<lparr>name = ''RamarisError'', message = msg, code = c, status = st, retryAfter = None\<rparr>"

definition new_RateLimitError :: "string \<Rightarrow> 'n \<Rightarrow> 'n RamarisError" where
  "new_RateLimitError msg ra =
     (new_RamarisError msg ''RATE_LIMITED'' 429)
       \<lparr>name := ''RateLimitError'', retryAfter := Some ra\<rparr>"

text \<open>What a call can throw: one of the client's errors, or a value thrown by the platform.\<close>

datatype 'n thrown = Ramaris "'n RamarisError" | Platform js_thrown

section \<open>types.ts\<close>

record 'n Pagination =
  page :: 'n
  pageSize :: 'n
  totalItems :: 'n
  totalPages :: 'n

record ('a, 'n) PaginatedResponse =
  data :: "'a list"
  pagination :: "'n Pagination"

record 'n PaginationParams =
  page :: "'n option"
  pageSize :: "'n option"

record 'n RateLimitInfo =
  limit :: 'n
  remaining :: 'n
  reset :: 'n

record ClientOptions =
  apiKey :: string
  baseUrl :: "string option"

text \<open>The single-item envelope \<^verbatim>\<open>{ data: T }\<close> of \<^verbatim>\<open>getSingle\<close>.\<close>

record 'a DataEnvelope =
  data :: 'a

section \<open>client.ts\<close>

definition DEFAULT_BASE_URL :: string where
  "DEFAULT_BASE_URL = ''https://www.ramaris.app/api/v1''"

record 'n RamarisClient =
  apiKey :: string
  baseUrl :: string
  rateLimit :: "'n RateLimitInfo option"

definition new_RamarisClient :: "ClientOptions \<Rightarrow> 'n RamarisClient" where
  "new_RamarisClient options =
     \<lparr>RamarisClient.apiKey = ClientOptions.apiKey options,
      baseUrl =
        strip_trailing_slashes
          (case ClientOptions.baseUrl options of None \<Rightarrow> DEFAULT_BASE_URL | Some b \<Rightarrow> b),
      rateLimit = None\<rparr>"

definition buildUrl ::
  "('n \<Rightarrow> string) \<Rightarrow> 'n RamarisClient \<Rightarrow> string \<Rightarrow> 'n PaginationParams option \<Rightarrow> string" where
  "buildUrl toStr this path params =
     (let url = RamarisClient.baseUrl this @ path in
      case params of
        None \<Rightarrow> url
      | Some ps \<Rightarrow>
          let sp0 = new_URLSearchParams;
              sp1 = (case PaginationParams.page ps of
                       Some p \<Rightarrow> usp_set sp0 ''page'' (toStr p) | None \<Rightarrow> sp0);
              sp2 = (case PaginationParams.pageSize ps of
                       Some s \<Rightarrow> usp_set sp1 ''pageSize'' (toStr s) | None \<Rightarrow> sp1);
              qs = usp_toString sp2
          in if truthy qs then url @ ''?'' @ qs else url)"

definition updateRateLimit ::
  "(string \<Rightarrow> nat \<Rightarrow> 'n) \<Rightarrow> (string \<Rightarrow> string option) \<Rightarrow> 'n RamarisClient \<Rightarrow> 'n RamarisClient" where
  "updateRateLimit parseInt hdrs this =
     (case (hdrs ''x-ratelimit-limit'', hdrs ''x-ratelimit-remaining'', hdrs ''x-ratelimit-reset'') of
        (Some l, Some r, Some s) \<Rightarrow>
          if truthy l \<and> truthy r \<and> truthy s
          then this\<lparr>rateLimit :=
                 Some \<lparr>limit = parseInt l 10, remaining = parseInt r 10, reset = parseInt s 10\<rparr>\<rparr>
          else this
      | _ \<Rightarrow> this)"

text \<open>
  The \<^verbatim>\<open>try\<close> block of \<^verbatim>\<open>handleErrorResponse\<close>: the value of \<^verbatim>\<open>body\<close> after it (\<open>None\<close> is
  \<^verbatim>\<open>null\<close>). An exception of \<^verbatim>\<open>json()\<close> is caught and leaves \<^verbatim>\<open>body\<close> as it was.
\<close>

definition errorBody :: "('t, 'n) Response \<Rightarrow> 'n ErrorBody option" where
  "errorBody response =
     (case Response.headers response ''content-type'' of
        None \<Rightarrow> None
      | Some contentType \<Rightarrow>
          if str_includes contentType ''application/json''
          then (case json response of Inl err \<Rightarrow> None | Inr v \<Rightarrow> Some (as_ErrorBody v))
          else None)"

text \<open>\<^verbatim>\<open>a ?? b\<close>: \<open>b\<close> when \<open>a\<close> is \<^verbatim>\<open>undefined\<close> or \<^verbatim>\<open>null\<close>, and \<open>a\<close> otherwise.\<close>

definition nullish :: "'a option \<Rightarrow> 'a \<Rightarrow> 'a" where
  "nullish a b = (case a of None \<Rightarrow> b | Some v \<Rightarrow> v)"

text \<open>
  \<^verbatim>\<open>handleErrorResponse\<close> returns \<^verbatim>\<open>Promise<never>\<close>: every path ends in a \<^verbatim>\<open>throw\<close>. The
  function of the model returns the error that is thrown.
\<close>

definition handleErrorResponse :: "('t, 'n::zero) Response \<Rightarrow> 'n RamarisError" where
  "handleErrorResponse response =
     (let body = errorBody response;
          c = nullish (body \<bind> error \<bind> ErrorDetail.code) ''UNKNOWN_ERROR'';
          msg = nullish (body \<bind> error \<bind> ErrorDetail.message)
                  (''HTTP '' @ String_nat (Response.status response))
      in if Response.status response = 429
         then (let ra = nullish (body \<bind> error \<bind> ErrorDetail.retryAfter) 0
               in new_RateLimitError msg ra)
         else new_RamarisError msg c (Response.status response))"

text \<open>The second argument of \<^verbatim>\<open>fetch\<close> in \<^verbatim>\<open>request\<close>.\<close>

definition requestInit :: "'n RamarisClient \<Rightarrow> RequestInit" where
  "requestInit this =
     \<lparr>httpMethod = ''GET'',
      headers = [(''Authorization'', ''Bearer '' @ RamarisClient.apiKey this),
                 (''Accept'', ''application/json'')]\<rparr>"

text \<open>
  \<^verbatim>\<open>request\<close> returns what the call throws or returns, and the client after the call (the
  call may assign \<^verbatim>\<open>this.rateLimit\<close>).
\<close>

definition request ::
  "(string \<Rightarrow> nat \<Rightarrow> 'n) \<Rightarrow> ('n \<Rightarrow> string) \<Rightarrow> ('t, 'n::zero) fetch \<Rightarrow> 'n RamarisClient \<Rightarrow> string \<Rightarrow>
   'n PaginationParams option \<Rightarrow> ('n thrown + 't) \<times> 'n RamarisClient" where
  "request parseInt toStr fetch this path params =
     (let url = buildUrl toStr this path params in
      case fetch url (requestInit this) of
        Inl err \<Rightarrow>
          (Inl (Ramaris (new_RamarisError
                           (case err of ErrorInstance m \<Rightarrow> m | NotAnError x \<Rightarrow> ''Network error'')
                           ''NETWORK_ERROR'' 0)),
           this)
      | Inr response \<Rightarrow>
          let this' = updateRateLimit parseInt (Response.headers response) this in
          if \<not> ok response then (Inl (Ramaris (handleErrorResponse response)), this')
          else (case json response of
                  Inl err \<Rightarrow> (Inl (Platform err), this')
                | Inr v \<Rightarrow> (Inr (as_T v), this')))"

text \<open>
  The two generic calls. The resource methods of the class (\<^verbatim>\<open>strategies.list\<close>,
  \<^verbatim>\<open>wallets.get\<close>, \<^verbatim>\<open>health\<close> and the others) call one of \<^verbatim>\<open>getPaginated\<close>, \<^verbatim>\<open>getSingle\<close> and
  \<^verbatim>\<open>request\<close> with a fixed path and add nothing to them.
\<close>

definition getPaginated ::
  "(string \<Rightarrow> nat \<Rightarrow> 'n) \<Rightarrow> ('n \<Rightarrow> string) \<Rightarrow> (('a, 'n) PaginatedResponse, 'n::zero) fetch \<Rightarrow>
   'n RamarisClient \<Rightarrow> string \<Rightarrow> 'n PaginationParams option \<Rightarrow>
   ('n thrown + ('a, 'n) PaginatedResponse) \<times> 'n RamarisClient" where
  "getPaginated parseInt toStr fetch this path params =
     request parseInt toStr fetch this path params"

definition getSingle ::
  "(string \<Rightarrow> nat \<Rightarrow> 'n) \<Rightarrow> ('n \<Rightarrow> string) \<Rightarrow> ('a DataEnvelope, 'n::zero) fetch \<Rightarrow>
   'n RamarisClient \<Rightarrow> string \<Rightarrow> ('n thrown + 'a) \<times> 'n RamarisClient" where
  "getSingle parseInt toStr fetch this path =
     (case request parseInt toStr fetch this path None of
        (Inl e, this') \<Rightarrow> (Inl e, this')
      | (Inr response, this') \<Rightarrow> (Inr (DataEnvelope.data response), this'))"

section \<open>Example inputs\<close>

text \<open>
  Clients and responses used to evaluate the client: a client built with the default
  base URL, the same client after a call that recorded a rate-limit snapshot, and
  responses a server may send.
\<close>

definition example_client :: "number RamarisClient" where
  "example_client = new_RamarisClient \<lparr>ClientOptions.apiKey = ''rms_test_key'', baseUrl = None\<rparr>"

definition example_client_limited :: "number RamarisClient" where
  "example_client_limited =
     example_client
       \<lparr>rateLimit := Some \<lparr>limit = Num 1000, remaining = Num 950, reset = Num 1700000000\<rparr>\<rparr>"

text \<open>
  Status 429 with the three rate-limit headers and the JSON body
  \<^verbatim>\<open>{"error": {"code": "QUOTA_EXCEEDED", "message": "Rate limit exceeded", "retryAfter": 1800}}\<close>.
\<close>

definition response_429_json :: "(unit, number) Response" where
  "response_429_json =
     \<lparr>Response.status = 429,
      headers = map_of [(''content-type'', ''application/json''),
                        (''x-ratelimit-limit'', ''1000''),
                        (''x-ratelimit-remaining'', ''0''),
                        (''x-ratelimit-reset'', ''1700001800'')],
      json = Inr (Any ()
               \<lparr>error = Some \<lparr>ErrorDetail.code = Some ''QUOTA_EXCEEDED'',
                              message = Some ''Rate limit exceeded'',
                              retryAfter = Some (Num 1800)\<rparr>\<rparr>)\<rparr>"

text \<open>Status 200 with the three rate-limit headers.\<close>

definition response_rate_headers :: "(string, number) Response" where
  "response_rate_headers =
     \<lparr>Response.status = 200,
      headers = map_of [(''content-type'', ''application/json''),
                        (''x-ratelimit-limit'', ''1000''),
                        (''x-ratelimit-remaining'', ''950''),
                        (''x-ratelimit-reset'', ''1700000000'')],
      json = Inr (Any ''ok'' \<lparr>error = None\<rparr>)\<rparr>"

text \<open>
  Status 200 with the three rate-limit headers, where \<^verbatim>\<open>x-ratelimit-limit\<close> is sent with an
  empty value: \<^verbatim>\<open>headers.get\<close> returns the empty string for it, not \<^verbatim>\<open>null\<close>.
\<close>

definition response_empty_limit :: "(string, number) Response" where
  "response_empty_limit =
     \<lparr>Response.status = 200,
      headers = map_of [(''content-type'', ''application/json''),
                        (''x-ratelimit-limit'', []),
                        (''x-ratelimit-remaining'', ''999''),
                        (''x-ratelimit-reset'', ''1700000000'')],
      json = Inr (Any ''ok'' \<lparr>error = None\<rparr>)\<rparr>"

text \<open>Status 200 with a JSON body.\<close>

definition response_200_health :: "(string, number) Response" where
  "response_200_health =
     \<lparr>Response.status = 200,
      headers = map_of [(''content-type'', ''application/json'')],
      json = Inr (Any ''ok'' \<lparr>error = None\<rparr>)\<rparr>"

text \<open>Status 204 (No Content): the body is empty, and \<^verbatim>\<open>json()\<close> throws a \<^verbatim>\<open>SyntaxError\<close>.\<close>

definition response_204_empty :: "(string, number) Response" where
  "response_204_empty =
     \<lparr>Response.status = 204,
      headers = map_of [],
      json = Inl (ErrorInstance ''Unexpected end of JSON input'')\<rparr>"

text \<open>Status 502 and status 429 with a \<^verbatim>\<open>text/plain\<close> body that is not JSON.\<close>

definition response_502_plain :: "(string, number) Response" where
  "response_502_plain =
     \<lparr>Response.status = 502,
      headers = map_of [(''content-type'', ''text/plain'')],
      json = Inl (ErrorInstance ''Unexpected token I in JSON at position 0'')\<rparr>"

definition response_429_plain :: "(string, number) Response" where
  "response_429_plain =
     \<lparr>Response.status = 429,
      headers = map_of [(''content-type'', ''text/plain'')],
      json = Inl (ErrorInstance ''Unexpected token T in JSON at position 0'')\<rparr>"

text \<open>
  Error responses whose body is valid JSON of the \<^verbatim>\<open>ErrorBody\<close> shape, sent under another
  JSON media type.
\<close>

definition response_400_problem_json :: "(string, number) Response" where
  "response_400_problem_json =
     \<lparr>Response.status = 400,
      headers = map_of [(''content-type'', ''application/problem+json'')],
      json = Inr (Any []
               \<lparr>error = Some \<lparr>ErrorDetail.code = Some ''BAD_REQUEST'',
                              message = Some ''Invalid page'',
                              retryAfter = None\<rparr>\<rparr>)\<rparr>"

definition response_429_text_json :: "(string, number) Response" where
  "response_429_text_json =
     \<lparr>Response.status = 429,
      headers = map_of [(''content-type'', ''text/json'')],
      json = Inr (Any []
               \<lparr>error = Some \<lparr>ErrorDetail.code = Some ''RATE_LIMITED'',
                              message = Some ''Rate limit exceeded'',
                              retryAfter = Some (Num 1800)\<rparr>\<rparr>)\<rparr>"

text \<open>Successful responses: a single-item envelope and a paginated envelope.\<close>

definition response_200_single :: "(string DataEnvelope, number) Response" where
  "response_200_single =
     \<lparr>Response.status = 200,
      headers = map_of [(''content-type'', ''application/json'')],
      json = Inr (Any \<lparr>DataEnvelope.data = ''DeFi Alpha''\<rparr> \<lparr>error = None\<rparr>)\<rparr>"

definition response_200_page :: "((string, number) PaginatedResponse, number) Response" where
  "response_200_page =
     \<lparr>Response.status = 200,
      headers = map_of [(''content-type'', ''application/json'')],
      json = Inr (Any \<lparr>PaginatedResponse.data = [''DeFi Alpha''],
                       pagination = \<lparr>Pagination.page = Num 1, pageSize = Num 20,
                                     totalItems = Num 100, totalPages = Num 5\<rparr>\<rparr>
                  \<lparr>error = None\<rparr>)\<rparr>"

section \<open>Properties of the platform functions\<close>

lemma startsWith_iff: "startsWith s p \<longleftrightarrow> (\<exists>b. s = p @ b)"
  by (induction s p rule: startsWith.induct) auto

text \<open>\<open>str_includes\<close> decides the substring relation.\<close>

lemma str_includes_iff: "str_includes s p \<longleftrightarrow> (\<exists>a b. s = a @ p @ b)"
proof (induction s)
  case Nil
  then show ?case by simp
next
  case (Cons c cs)
  show ?case
  proof
    assume "str_includes (c # cs) p"
    then consider "startsWith (c # cs) p" | "str_includes cs p" by auto
    then show "\<exists>a b. c # cs = a @ p @ b"
    proof cases
      case 1
      then obtain b where "c # cs = p @ b" by (auto simp: startsWith_iff)
      then have "c # cs = [] @ p @ b" by simp
      then show ?thesis by blast
    next
      case 2
      then obtain a b where "cs = a @ p @ b" using Cons.IH by blast
      then have "c # cs = (c # a) @ p @ b" by simp
      then show ?thesis by blast
    qed
  next
    assume "\<exists>a b. c # cs = a @ p @ b"
    then obtain a b where ab: "c # cs = a @ p @ b" by blast
    show "str_includes (c # cs) p"
    proof (cases a)
      case Nil
      with ab have "startsWith (c # cs) p" by (auto simp: startsWith_iff)
      then show ?thesis by simp
    next
      case (Cons a0 as)
      with ab have "cs = as @ p @ b" by simp
      then have "str_includes cs p" using Cons.IH by blast
      then show ?thesis by simp
    qed
  qed
qed

lemma problem_json_no_match: "\<not> str_includes ''application/problem+json'' ''application/json''"
  by code_simp

lemma text_json_no_match: "\<not> str_includes ''text/json'' ''application/json''"
  by code_simp

text \<open>Stripping removes a run of slashes at the end, and leaves no slash at the end.\<close>

lemma strip_trailing_slashes_decomp:
  "\<exists>k. s = strip_trailing_slashes s @ replicate k (CHR ''/'')"
proof -
  let ?P = "\<lambda>c. c = CHR ''/''"
  let ?run = "takeWhile ?P (rev s)"
  have "rev (?run @ dropWhile ?P (rev s)) = s"
    by (simp only: takeWhile_dropWhile_id rev_rev_ident)
  then have "rev (dropWhile ?P (rev s)) @ rev ?run = s"
    by (simp only: rev_append)
  then have split: "s = strip_trailing_slashes s @ rev ?run"
    by (simp only: strip_trailing_slashes_def)
  have "\<forall>c\<in>set (rev ?run). c = CHR ''/''"
    by (auto dest: set_takeWhileD)
  then have "replicate (length (rev ?run)) (CHR ''/'') = rev ?run"
    by (rule replicate_length_same)
  with split have "s = strip_trailing_slashes s @ replicate (length (rev ?run)) (CHR ''/'')"
    by simp
  then show ?thesis ..
qed

lemma strip_trailing_slashes_no_slash:
  "strip_trailing_slashes s \<noteq> t @ ''/''"
proof
  assume "strip_trailing_slashes s = t @ ''/''"
  then have "rev (strip_trailing_slashes s) = rev (t @ ''/'')"
    by simp
  then have eq: "dropWhile (\<lambda>c. c = CHR ''/'') (rev s) = CHR ''/'' # rev t"
    by (simp add: strip_trailing_slashes_def)
  then have "dropWhile (\<lambda>c. c = CHR ''/'') (rev s) \<noteq> []"
    by simp
  then have "hd (dropWhile (\<lambda>c. c = CHR ''/'') (rev s)) \<noteq> CHR ''/''"
    by (rule hd_dropWhile)
  with eq show False by simp
qed

lemma strip_example: "strip_trailing_slashes ''https://x/v1/'' = ''https://x/v1''"
  by (simp add: strip_trailing_slashes_def)

lemma urlencode_page: "urlencode ''page'' = ''page''"
  by (simp add: urlencode_def urlencoded_byte_def urlencoded_keep_def)

lemma urlencode_pageSize: "urlencode ''pageSize'' = ''pageSize''"
  by (simp add: urlencode_def urlencoded_byte_def urlencoded_keep_def)

section \<open>The paths through request\<close>

lemma request_resolved:
  "fetch (buildUrl toStr this path params) (requestInit this) = Inr response \<Longrightarrow>
   request parseInt toStr fetch this path params =
     (let this' = updateRateLimit parseInt (Response.headers response) this in
      if \<not> ok response then (Inl (Ramaris (handleErrorResponse response)), this')
      else (case json response of
              Inl err \<Rightarrow> (Inl (Platform err), this')
            | Inr v \<Rightarrow> (Inr (as_T v), this')))"
  by (simp add: request_def)

lemma request_rejected:
  "fetch (buildUrl toStr this path params) (requestInit this) = Inl err \<Longrightarrow>
   request parseInt toStr fetch this path params =
     (Inl (Ramaris (new_RamarisError
                      (case err of ErrorInstance m \<Rightarrow> m | NotAnError x \<Rightarrow> ''Network error'')
                      ''NETWORK_ERROR'' 0)), this)"
  by (simp add: request_def)

lemma fst_request_resolved:
  "fetch (buildUrl toStr this path params) (requestInit this) = Inr response \<Longrightarrow>
   fst (request parseInt toStr fetch this path params) =
     (if \<not> ok response then Inl (Ramaris (handleErrorResponse response))
      else (case json response of Inl err \<Rightarrow> Inl (Platform err) | Inr v \<Rightarrow> Inr (as_T v)))"
  by (simp add: request_resolved Let_def split: sum.splits)

lemma snd_request_resolved:
  "fetch (buildUrl toStr this path params) (requestInit this) = Inr response \<Longrightarrow>
   snd (request parseInt toStr fetch this path params) =
     updateRateLimit parseInt (Response.headers response) this"
  by (simp add: request_resolved Let_def split: sum.splits)

text \<open>\<^verbatim>\<open>request\<close> asks the network for one URL only, the one \<^verbatim>\<open>buildUrl\<close> returns.\<close>

lemma request_fetch_at:
  "request parseInt toStr fetch this path params =
     request parseInt toStr (\<lambda>url init. fetch (buildUrl toStr this path params) init)
       this path params"
  by (simp add: request_def)

lemma updateRateLimit_cases:
  "updateRateLimit parseInt hdrs this =
     (case (hdrs ''x-ratelimit-limit'', hdrs ''x-ratelimit-remaining'', hdrs ''x-ratelimit-reset'') of
        (Some l, Some r, Some s) \<Rightarrow>
          if l \<noteq> [] \<and> r \<noteq> [] \<and> s \<noteq> []
          then this\<lparr>rateLimit :=
                 Some \<lparr>limit = parseInt l 10, remaining = parseInt r 10, reset = parseInt s 10\<rparr>\<rparr>
          else this
      | _ \<Rightarrow> this)"
  by (simp add: updateRateLimit_def truthy_def split: option.splits)

lemma request_keeps_config:
  "RamarisClient.baseUrl (snd (request parseInt toStr fetch this path params)) =
     RamarisClient.baseUrl this \<and>
   RamarisClient.apiKey (snd (request parseInt toStr fetch this path params)) =
     RamarisClient.apiKey this"
proof (cases "fetch (buildUrl toStr this path params) (requestInit this)")
  case (Inl err)
  then show ?thesis by (simp add: request_rejected)
next
  case (Inr response)
  then have "snd (request parseInt toStr fetch this path params) =
     updateRateLimit parseInt (Response.headers response) this"
    by (rule snd_request_resolved)
  then show ?thesis
    by (simp add: updateRateLimit_def split: option.splits)
qed

lemma fst_getSingle:
  "fst (getSingle parseInt toStr fetch this path) =
     (case fst (request parseInt toStr fetch this path None) of
        Inl e \<Rightarrow> Inl e | Inr response \<Rightarrow> Inr (DataEnvelope.data response))"
  by (simp add: getSingle_def split: prod.splits sum.splits)

lemma snd_getSingle:
  "snd (getSingle parseInt toStr fetch this path) =
     snd (request parseInt toStr fetch this path None)"
  by (simp add: getSingle_def split: prod.splits sum.splits)

lemma baseUrl_new:
  "RamarisClient.baseUrl (new_RamarisClient \<lparr>ClientOptions.apiKey = key, baseUrl = Some s\<rparr>) =
     strip_trailing_slashes s"
  by (simp add: new_RamarisClient_def)

section \<open>The paths through handleErrorResponse\<close>

lemma not_ok_429: "Response.status response = 429 \<Longrightarrow> \<not> ok response"
  by (simp add: ok_def)

lemma handleErrorResponse_429:
  "Response.status response = 429 \<Longrightarrow>
   handleErrorResponse response =
     \<lparr>name = ''RateLimitError'',
      message = (case errorBody response \<bind> error \<bind> ErrorDetail.message of
                   None \<Rightarrow> ''HTTP 429'' | Some m \<Rightarrow> m),
      code = ''RATE_LIMITED'', status = 429,
      retryAfter = Some (case errorBody response \<bind> error \<bind> ErrorDetail.retryAfter of
                           None \<Rightarrow> 0 | Some ra \<Rightarrow> ra)\<rparr>"
  by (simp add: handleErrorResponse_def Let_def new_RateLimitError_def new_RamarisError_def
      nullish_def)

lemma handleErrorResponse_name:
  "name (handleErrorResponse response) =
     (if Response.status response = 429 then ''RateLimitError'' else ''RamarisError'')"
  by (simp add: handleErrorResponse_def Let_def new_RateLimitError_def new_RamarisError_def)

lemma errorBody_None_iff:
  "errorBody response = None \<longleftrightarrow>
     (case Response.headers response ''content-type'' of
        None \<Rightarrow> True
      | Some contentType \<Rightarrow>
          \<not> str_includes contentType ''application/json'' \<or> (\<exists>err. json response = Inl err))"
  by (auto simp: errorBody_def split: option.splits sum.splits)

lemma errorBody_not_json:
  assumes "\<forall>contentType. Response.headers response ''content-type'' = Some contentType \<longrightarrow>
             \<not> (\<exists>a b. contentType = a @ ''application/json'' @ b)"
  shows "errorBody response = None"
  using assms by (auto simp: errorBody_def str_includes_iff split: option.splits)

lemma handleErrorResponse_no_body:
  "errorBody response = None \<Longrightarrow>
   handleErrorResponse response =
     (if Response.status response = 429
      then \<lparr>name = ''RateLimitError'', message = ''HTTP 429'', code = ''RATE_LIMITED'',
            status = 429, retryAfter = Some 0\<rparr>
      else \<lparr>name = ''RamarisError'', message = ''HTTP '' @ String_nat (Response.status response),
            code = ''UNKNOWN_ERROR'', status = Response.status response, retryAfter = None\<rparr>)"
  by (simp add: handleErrorResponse_def Let_def new_RateLimitError_def new_RamarisError_def
      nullish_def)

section \<open>The properties of the client\<close>

subsection \<open>Rate-limit errors\<close>

text \<open>
  C1. A response with status 429 makes the call throw a \<^verbatim>\<open>RateLimitError\<close>: its code is
  \<^verbatim>\<open>RATE_LIMITED\<close> and its status 429 whatever code the body reports; its \<^verbatim>\<open>retryAfter\<close> is
  the body's \<^verbatim>\<open>error.retryAfter\<close> when the body, its \<^verbatim>\<open>error\<close> object and the field are
  there, and 0 otherwise; its message is the extracted message (the body's
  \<^verbatim>\<open>error.message\<close>, or \<^verbatim>\<open>HTTP 429\<close>).
\<close>

theorem rate_limit_error_on_429:
  assumes "fetch (buildUrl toStr this path params) (requestInit this) = Inr response"
    and "Response.status response = 429"
  shows "fst (request parseInt toStr fetch this path params) =
     Inl (Ramaris
       \<lparr>name = ''RateLimitError'',
        message = (case errorBody response \<bind> error \<bind> ErrorDetail.message of
                     None \<Rightarrow> ''HTTP 429'' | Some m \<Rightarrow> m),
        code = ''RATE_LIMITED'', status = 429,
        retryAfter = Some (case errorBody response of
                             None \<Rightarrow> 0
                           | Some body \<Rightarrow>
                               (case error body of
                                  None \<Rightarrow> 0
                                | Some e \<Rightarrow>
                                    (case ErrorDetail.retryAfter e of
                                       None \<Rightarrow> 0 | Some ra \<Rightarrow> ra)))\<rparr>)"
  using assms
  by (simp add: request_resolved not_ok_429 handleErrorResponse_429 Let_def
      split: option.splits)

text \<open>The body reports the code \<^verbatim>\<open>QUOTA_EXCEEDED\<close> and \<^verbatim>\<open>retryAfter\<close> 1800.\<close>

theorem rate_limit_error_on_429_witness:
  "Response.status response_429_json = 429 \<and>
   fst (request parseInt_number String_number (\<lambda>url init. Inr response_429_json)
          example_client ''/strategies'' None) =
   Inl (Ramaris \<lparr>name = ''RateLimitError'', message = ''Rate limit exceeded'',
                 code = ''RATE_LIMITED'', status = 429, retryAfter = Some (Num 1800)\<rparr>)"
  using rate_limit_error_on_429 [of "\<lambda>url init. Inr response_429_json" String_number
      example_client "''/strategies''" None response_429_json parseInt_number]
  by (simp add: response_429_json_def errorBody_def)

subsection \<open>The rate-limit snapshot\<close>

text \<open>
  C2, as the code has it. After every response, whatever its status, the snapshot is
  overwritten with \<^verbatim>\<open>parseInt(value, 10)\<close> of the headers \<^verbatim>\<open>x-ratelimit-limit\<close>,
  \<^verbatim>\<open>x-ratelimit-remaining\<close> and \<^verbatim>\<open>x-ratelimit-reset\<close> if and only if all three are present
  with a non-empty value; when one of them is missing or empty, the prior snapshot (also
  the initial absent one) is kept.
\<close>

theorem rate_limit_snapshot_update:
  assumes "fetch (buildUrl toStr this path params) (requestInit this) = Inr response"
  shows "rateLimit (snd (request parseInt toStr fetch this path params)) =
     (case (Response.headers response ''x-ratelimit-limit'',
            Response.headers response ''x-ratelimit-remaining'',
            Response.headers response ''x-ratelimit-reset'') of
        (Some l, Some r, Some s) \<Rightarrow>
          if l \<noteq> [] \<and> r \<noteq> [] \<and> s \<noteq> []
          then Some \<lparr>limit = parseInt l 10, remaining = parseInt r 10, reset = parseInt s 10\<rparr>
          else rateLimit this
      | _ \<Rightarrow> rateLimit this)"
  using assms
  by (simp add: snd_request_resolved updateRateLimit_cases split: option.splits)

theorem rate_limit_snapshot_update_witness:
  "rateLimit (snd (request parseInt_number String_number (\<lambda>url init. Inr response_rate_headers)
                     example_client ''/strategies'' None)) =
     Some \<lparr>limit = Num 1000, remaining = Num 950, reset = Num 1700000000\<rparr> \<and>
   rateLimit (snd (request parseInt_number String_number (\<lambda>url init. Inr response_429_json)
                     example_client_limited ''/strategies'' None)) =
     Some \<lparr>limit = Num 1000, remaining = Num 0, reset = Num 1700001800\<rparr> \<and>
   rateLimit (snd (request parseInt_number String_number (\<lambda>url init. Inr response_502_plain)
                     example_client_limited ''/strategies'' None)) =
     rateLimit example_client_limited"
proof -
  have "parseInt_number ''1000'' 10 = Num 1000" "parseInt_number ''950'' 10 = Num 950"
    "parseInt_number ''1700000000'' 10 = Num 1700000000" "parseInt_number ''0'' 10 = Num 0"
    "parseInt_number ''1700001800'' 10 = Num 1700001800"
    by code_simp+
  then show ?thesis
    using rate_limit_snapshot_update [of "\<lambda>url init. Inr response_rate_headers" String_number
        example_client "''/strategies''" None response_rate_headers parseInt_number]
      rate_limit_snapshot_update [of "\<lambda>url init. Inr response_429_json" String_number
        example_client_limited "''/strategies''" None response_429_json parseInt_number]
      rate_limit_snapshot_update [of "\<lambda>url init. Inr response_502_plain" String_number
        example_client_limited "''/strategies''" None response_502_plain parseInt_number]
    by (simp add: response_rate_headers_def response_429_json_def response_502_plain_def)
qed

text \<open>
  C2 with presence alone fails: a response that carries all three headers, the first
  with an empty value, leaves the absent snapshot absent.
\<close>

theorem empty_header_keeps_snapshot:
  "Response.headers response_empty_limit ''x-ratelimit-limit'' = Some [] \<and>
   Response.headers response_empty_limit ''x-ratelimit-remaining'' = Some ''999'' \<and>
   Response.headers response_empty_limit ''x-ratelimit-reset'' = Some ''1700000000'' \<and>
   rateLimit example_client = None \<and>
   rateLimit (snd (request parseInt_number String_number (\<lambda>url init. Inr response_empty_limit)
                     example_client ''/strategies'' None)) = None"
  by (simp add: response_empty_limit_def example_client_def new_RamarisClient_def
      snd_request_resolved updateRateLimit_cases)

subsection \<open>Which calls return\<close>

text \<open>
  C3, as the code has it. A response whose status is outside 200..299 makes the call
  throw one of the client's errors (a \<^verbatim>\<open>RamarisError\<close> or a \<^verbatim>\<open>RateLimitError\<close>), never
  return. A call returns a value if and only if a response was obtained, its status is in
  200..299 and its body parses as JSON.
\<close>

theorem request_returns_iff_ok_and_json:
  "(\<forall>response.
      fetch (buildUrl toStr this path params) (requestInit this) = Inr response \<and>
      \<not> (200 \<le> Response.status response \<and> Response.status response \<le> 299) \<longrightarrow>
      (\<exists>e. fst (request parseInt toStr fetch this path params) = Inl (Ramaris e) \<and>
           (name e = ''RamarisError'' \<or> name e = ''RateLimitError''))) \<and>
   ((\<exists>v. fst (request parseInt toStr fetch this path params) = Inr v) \<longleftrightarrow>
      (\<exists>response.
         fetch (buildUrl toStr this path params) (requestInit this) = Inr response \<and>
         200 \<le> Response.status response \<and> Response.status response \<le> 299 \<and>
         (\<exists>j. json response = Inr j)))"
proof (cases "fetch (buildUrl toStr this path params) (requestInit this)")
  case (Inl err)
  then show ?thesis by (simp add: request_rejected)
next
  case (Inr response)
  then show ?thesis
    by (auto simp: fst_request_resolved ok_def handleErrorResponse_name split: sum.splits)
qed

theorem request_returns_iff_ok_and_json_witness:
  "(\<exists>e. fst (request parseInt_number String_number (\<lambda>url init. Inr response_502_plain)
               example_client ''/strategies'' None) = Inl (Ramaris e) \<and>
        (name e = ''RamarisError'' \<or> name e = ''RateLimitError'')) \<and>
   (\<exists>v. fst (request parseInt_number String_number (\<lambda>url init. Inr response_200_health)
               example_client ''/health'' None) = Inr v)"
  using request_returns_iff_ok_and_json [of "\<lambda>url init. Inr response_502_plain" String_number
      example_client "''/strategies''" None parseInt_number]
    request_returns_iff_ok_and_json [of "\<lambda>url init. Inr response_200_health" String_number
      example_client "''/health''" None parseInt_number]
  by (simp add: response_502_plain_def response_200_health_def)

text \<open>
  C3 with the status alone fails: a response with status 204 and an empty body does not
  make the call return; the call throws the \<^verbatim>\<open>SyntaxError\<close> of \<^verbatim>\<open>json()\<close>, which is not one
  of the client's errors.
\<close>

theorem ok_status_unparsable_body_throws:
  "200 \<le> Response.status response_204_empty \<and> Response.status response_204_empty \<le> 299 \<and>
   fst (request parseInt_number String_number (\<lambda>url init. Inr response_204_empty)
          example_client ''/health'' None) =
     Inl (Platform (ErrorInstance ''Unexpected end of JSON input''))"
  by (simp add: fst_request_resolved ok_def response_204_empty_def)

subsection \<open>Error bodies that are not JSON\<close>

text \<open>
  C4, as the code has it. When the status is outside 200..299 and the body is not JSON
  (no content type, a content type without \<^verbatim>\<open>application/json\<close>, or a body that fails to
  parse), the call throws an error whose message is \<^verbatim>\<open>HTTP\<close> followed by the status and
  whose status is the HTTP status. Its code is \<^verbatim>\<open>UNKNOWN_ERROR\<close> unless the status is 429,
  where it is the \<^verbatim>\<open>RateLimitError\<close> with code \<^verbatim>\<open>RATE_LIMITED\<close> and \<^verbatim>\<open>retryAfter\<close> 0. The
  failure to parse is never what the call throws.
\<close>

theorem non_json_error_body_defaults:
  assumes "fetch (buildUrl toStr this path params) (requestInit this) = Inr response"
    and "\<not> (200 \<le> Response.status response \<and> Response.status response \<le> 299)"
    and "case Response.headers response ''content-type'' of
           None \<Rightarrow> True
         | Some contentType \<Rightarrow>
             \<not> str_includes contentType ''application/json'' \<or> (\<exists>err. json response = Inl err)"
  shows "fst (request parseInt toStr fetch this path params) =
     Inl (Ramaris
       (if Response.status response = 429
        then \<lparr>name = ''RateLimitError'', message = ''HTTP 429'', code = ''RATE_LIMITED'',
              status = 429, retryAfter = Some 0\<rparr>
        else \<lparr>name = ''RamarisError'',
              message = ''HTTP '' @ String_nat (Response.status response),
              code = ''UNKNOWN_ERROR'', status = Response.status response,
              retryAfter = None\<rparr>))"
proof -
  have "errorBody response = None"
    using assms(3) by (simp add: errorBody_None_iff)
  moreover have "\<not> ok response"
    using assms(2) by (simp add: ok_def)
  ultimately show ?thesis
    using assms(1) by (simp add: fst_request_resolved handleErrorResponse_no_body)
qed

theorem non_json_error_body_defaults_witness:
  "fst (request parseInt_number String_number (\<lambda>url init. Inr response_502_plain)
          example_client ''/strategies'' None) =
     Inl (Ramaris \<lparr>name = ''RamarisError'', message = ''HTTP 502'', code = ''UNKNOWN_ERROR'',
                   status = 502, retryAfter = None\<rparr>)"
  using non_json_error_body_defaults [of "\<lambda>url init. Inr response_502_plain" String_number
      example_client "''/strategies''" None response_502_plain parseInt_number]
  by (simp add: response_502_plain_def)

text \<open>
  C4 with the code \<^verbatim>\<open>UNKNOWN_ERROR\<close> for every status fails at 429: the error thrown for a
  \<^verbatim>\<open>text/plain\<close> body has the code \<^verbatim>\<open>RATE_LIMITED\<close>.
\<close>

theorem non_json_429_is_rate_limited:
  "\<not> (200 \<le> Response.status response_429_plain \<and> Response.status response_429_plain \<le> 299) \<and>
   Response.headers response_429_plain ''content-type'' = Some ''text/plain'' \<and>
   fst (request parseInt_number String_number (\<lambda>url init. Inr response_429_plain)
          example_client ''/strategies'' None) =
     Inl (Ramaris \<lparr>name = ''RateLimitError'', message = ''HTTP 429'', code = ''RATE_LIMITED'',
                   status = 429, retryAfter = Some (Num 0)\<rparr>)"
  by (simp add: fst_request_resolved ok_def response_429_plain_def handleErrorResponse_no_body
      errorBody_def zero_number_def)

subsection \<open>Network failures\<close>

text \<open>
  C5. When \<^verbatim>\<open>fetch\<close> itself fails (no response), the call throws a \<^verbatim>\<open>RamarisError\<close> with
  code \<^verbatim>\<open>NETWORK_ERROR\<close> and status 0; its message is the message of the thrown value
  when that is an \<^verbatim>\<open>Error\<close>, and \<^verbatim>\<open>Network error\<close> otherwise.
\<close>

theorem network_error_on_rejected_fetch:
  assumes "fetch (buildUrl toStr this path params) (requestInit this) = Inl err"
  shows "fst (request parseInt toStr fetch this path params) =
     Inl (Ramaris
       \<lparr>name = ''RamarisError'',
        message = (case err of ErrorInstance m \<Rightarrow> m | NotAnError x \<Rightarrow> ''Network error''),
        code = ''NETWORK_ERROR'', status = 0, retryAfter = None\<rparr>)"
  using assms by (simp add: request_rejected new_RamarisError_def)

theorem network_error_on_rejected_fetch_witness:
  "fst (request parseInt_number String_number ((\<lambda>url init. Inl (ErrorInstance ''Failed to fetch'')) :: (string, number) fetch)
          example_client ''/strategies'' None) =
     Inl (Ramaris \<lparr>name = ''RamarisError'', message = ''Failed to fetch'',
                   code = ''NETWORK_ERROR'', status = 0, retryAfter = None\<rparr>) \<and>
   fst (request parseInt_number String_number ((\<lambda>url init. Inl (NotAnError ''timeout'')) :: (string, number) fetch)
          example_client ''/strategies'' None) =
     Inl (Ramaris \<lparr>name = ''RamarisError'', message = ''Network error'',
                   code = ''NETWORK_ERROR'', status = 0, retryAfter = None\<rparr>)"
  using network_error_on_rejected_fetch [of "(\<lambda>url init. Inl (ErrorInstance ''Failed to fetch'')) :: (string, number) fetch"
      String_number example_client "''/strategies''" None "ErrorInstance ''Failed to fetch''"
      parseInt_number]
    network_error_on_rejected_fetch [of "(\<lambda>url init. Inl (NotAnError ''timeout'')) :: (string, number) fetch"
      String_number example_client "''/strategies''" None "NotAnError ''timeout''"
      parseInt_number]
  by simp

subsection \<open>URLs\<close>

text \<open>
  C6. \<^verbatim>\<open>buildUrl\<close> is a function of the base URL, the path and the parameters only. The URL
  is the base URL followed by the path, then a query string that holds exactly the
  parameters that were given, \<^verbatim>\<open>page\<close> before \<^verbatim>\<open>pageSize\<close>; nothing is appended (no \<^verbatim>\<open>?\<close>)
  when there is no parameter object or when both fields are absent.
\<close>

theorem buildUrl_query_string:
  "buildUrl toStr this path params =
     RamarisClient.baseUrl this @ path @
     (case params of
        None \<Rightarrow> []
      | Some ps \<Rightarrow>
          (case (PaginationParams.page ps, PaginationParams.pageSize ps) of
             (None, None) \<Rightarrow> []
           | (Some p, None) \<Rightarrow> ''?page='' @ urlencode (toStr p)
           | (None, Some s) \<Rightarrow> ''?pageSize='' @ urlencode (toStr s)
           | (Some p, Some s) \<Rightarrow>
               ''?page='' @ urlencode (toStr p) @ ''&pageSize='' @ urlencode (toStr s)))"
  by (simp add: buildUrl_def Let_def new_URLSearchParams_def truthy_def urlencode_page
      urlencode_pageSize split: option.splits)

theorem buildUrl_query_string_witness:
  "buildUrl String_number example_client ''/strategies''
     (Some \<lparr>PaginationParams.page = Some (Num 2), pageSize = Some (Num 50)\<rparr>) =
     ''https://www.ramaris.app/api/v1/strategies?page=2&pageSize=50'' \<and>
   buildUrl String_number example_client ''/me/strategies/watchlist''
     (Some \<lparr>PaginationParams.page = Some (Num 3), pageSize = None\<rparr>) =
     ''https://www.ramaris.app/api/v1/me/strategies/watchlist?page=3'' \<and>
   buildUrl String_number example_client ''/strategies''
     (Some \<lparr>PaginationParams.page = None, pageSize = Some (Num 10)\<rparr>) =
     ''https://www.ramaris.app/api/v1/strategies?pageSize=10'' \<and>
   buildUrl String_number example_client ''/strategies''
     (Some \<lparr>PaginationParams.page = None, pageSize = None\<rparr>) =
     ''https://www.ramaris.app/api/v1/strategies'' \<and>
   buildUrl String_number example_client ''/strategies'' None =
     ''https://www.ramaris.app/api/v1/strategies''"
  by (simp add: buildUrl_query_string example_client_def new_RamarisClient_def
      DEFAULT_BASE_URL_def strip_trailing_slashes_def urlencode_def urlencoded_byte_def
      urlencoded_keep_def)

subsection \<open>Envelopes\<close>

text \<open>
  C7. On a response with status in 200..299 whose body is \<^verbatim>\<open>{data: X}\<close>, \<^verbatim>\<open>getSingle\<close>
  returns \<^verbatim>\<open>X\<close> (the envelope is dropped); on one whose body is
  \<^verbatim>\<open>{data: Xs, pagination: P}\<close>, \<^verbatim>\<open>getPaginated\<close> returns the whole envelope as it is.
\<close>

theorem envelope_single_and_paginated:
  "(fetch1 (buildUrl toStr this path1 None) (requestInit this) = Inr response1 \<and>
    200 \<le> Response.status response1 \<and> Response.status response1 \<le> 299 \<and>
    json response1 = Inr (Any \<lparr>DataEnvelope.data = x\<rparr> e1) \<longrightarrow>
      fst (getSingle parseInt toStr fetch1 this path1) = Inr x) \<and>
   (fetch2 (buildUrl toStr this path2 params) (requestInit this) = Inr response2 \<and>
    200 \<le> Response.status response2 \<and> Response.status response2 \<le> 299 \<and>
    json response2 = Inr (Any \<lparr>PaginatedResponse.data = xs, pagination = p\<rparr> e2) \<longrightarrow>
      fst (getPaginated parseInt toStr fetch2 this path2 params) =
        Inr \<lparr>PaginatedResponse.data = xs, pagination = p\<rparr>)"
  by (simp add: fst_getSingle getPaginated_def fst_request_resolved ok_def)

theorem envelope_single_and_paginated_witness:
  "fst (getSingle parseInt_number String_number (\<lambda>url init. Inr response_200_single)
          example_client ''/strategies/abc123'') = Inr ''DeFi Alpha'' \<and>
   fst (getPaginated parseInt_number String_number (\<lambda>url init. Inr response_200_page)
          example_client ''/strategies'' None) =
     Inr \<lparr>PaginatedResponse.data = [''DeFi Alpha''],
          pagination = \<lparr>Pagination.page = Num 1, pageSize = Num 20,
                        totalItems = Num 100, totalPages = Num 5\<rparr>\<rparr>"
  using envelope_single_and_paginated
     [where ?fetch1.0 = "\<lambda>url init. Inr response_200_single" and toStr = String_number
      and this = example_client and ?path1.0 = "''/strategies/abc123''"
      and ?response1.0 = response_200_single and x = "''DeFi Alpha''"
      and ?e1.0 = "\<lparr>error = None\<rparr>" and parseInt = parseInt_number
      and ?fetch2.0 = "\<lambda>url init. Inr response_200_page" and ?path2.0 = "''/strategies''"
      and params = None and ?response2.0 = response_200_page and xs = "[''DeFi Alpha'']"
      and p = "\<lparr>Pagination.page = Num 1, pageSize = Num 20,
                totalItems = Num 100, totalPages = Num 5\<rparr>"
      and ?e2.0 = "\<lparr>error = None\<rparr>"]
  by (simp add: response_200_single_def response_200_page_def)

subsection \<open>The base URL\<close>

text \<open>
  C8. The constructor strips the slashes at the end of a supplied base URL: what it
  stores is the override without a run of slashes at its end, and does not end in a
  slash. A client built with \<^verbatim>\<open>https://x/v1/\<close> requests \<^verbatim>\<open>https://x/v1/strategies\<close> for the
  path \<^verbatim>\<open>/strategies\<close>: the URL is that one, and it is the only one the call asks the
  network for. A call (\<^verbatim>\<open>request\<close>, \<^verbatim>\<open>getSingle\<close>, \<^verbatim>\<open>getPaginated\<close>) leaves the base URL and the API key
  of the client as they were.
\<close>

theorem baseUrl_trailing_slashes_stripped:
  "(\<exists>k. s = RamarisClient.baseUrl
             (new_RamarisClient \<lparr>ClientOptions.apiKey = key, baseUrl = Some s\<rparr>
                :: 'n RamarisClient) @
           replicate k (CHR ''/'')) \<and>
   (\<forall>t. RamarisClient.baseUrl
          (new_RamarisClient \<lparr>ClientOptions.apiKey = key, baseUrl = Some s\<rparr>
             :: 'n RamarisClient) \<noteq>
        t @ ''/'') \<and>
   buildUrl toStr
     (new_RamarisClient \<lparr>ClientOptions.apiKey = key, baseUrl = Some ''https://x/v1/''\<rparr>)
     ''/strategies'' None = ''https://x/v1/strategies'' \<and>
   request parseInt toStr fetch
     (new_RamarisClient \<lparr>ClientOptions.apiKey = key, baseUrl = Some ''https://x/v1/''\<rparr>)
     ''/strategies'' None =
   request parseInt toStr (\<lambda>url init. fetch ''https://x/v1/strategies'' init)
     (new_RamarisClient \<lparr>ClientOptions.apiKey = key, baseUrl = Some ''https://x/v1/''\<rparr>)
     ''/strategies'' None \<and>
   RamarisClient.baseUrl
     (snd (request parseInt toStr fetch (this :: ('n::zero) RamarisClient) path params)) =
     RamarisClient.baseUrl this \<and>
   RamarisClient.apiKey (snd (request parseInt toStr fetch this path params)) =
     RamarisClient.apiKey this \<and>
   RamarisClient.baseUrl (snd (getSingle parseInt toStr fetch1 this path)) =
     RamarisClient.baseUrl this \<and>
   RamarisClient.apiKey (snd (getSingle parseInt toStr fetch1 this path)) =
     RamarisClient.apiKey this \<and>
   RamarisClient.baseUrl (snd (getPaginated parseInt toStr fetch2 this path params)) =
     RamarisClient.baseUrl this \<and>
   RamarisClient.apiKey (snd (getPaginated parseInt toStr fetch2 this path params)) =
     RamarisClient.apiKey this"
proof -
  let ?c = "new_RamarisClient \<lparr>ClientOptions.apiKey = key, baseUrl = Some ''https://x/v1/''\<rparr>
              :: 'n RamarisClient"
  have url: "buildUrl toStr ?c ''/strategies'' None = ''https://x/v1/strategies''"
    by (simp add: buildUrl_def baseUrl_new strip_example)
  have "request parseInt toStr fetch ?c ''/strategies'' None =
        request parseInt toStr (\<lambda>url init. fetch (buildUrl toStr ?c ''/strategies'' None) init)
          ?c ''/strategies'' None"
    by (rule request_fetch_at)
  then have at: "request parseInt toStr fetch ?c ''/strategies'' None =
        request parseInt toStr (\<lambda>url init. fetch ''https://x/v1/strategies'' init)
          ?c ''/strategies'' None"
    by (simp only: url)
  show ?thesis
    using strip_trailing_slashes_decomp [of s] strip_trailing_slashes_no_slash [of s]
      url at request_keeps_config [of parseInt toStr fetch this path params]
      request_keeps_config [of parseInt toStr fetch1 this path None]
      request_keeps_config [of parseInt toStr fetch2 this path params]
    by (simp only: baseUrl_new snd_getSingle getPaginated_def) blast
qed

text \<open>
  The network of this example answers with the URL it is asked for, so that the
  error message of the call shows the URL that was requested.
\<close>

theorem baseUrl_trailing_slashes_stripped_witness:
  "(\<exists>k. ''https://staging.ramaris.app/api/v1//'' =
          RamarisClient.baseUrl
            (new_RamarisClient \<lparr>ClientOptions.apiKey = ''rms_key'',
               baseUrl = Some ''https://staging.ramaris.app/api/v1//''\<rparr> :: number RamarisClient) @
          replicate k (CHR ''/'')) \<and>
   fst (request parseInt_number String_number ((\<lambda>url init. Inl (ErrorInstance url)) :: (string, number) fetch)
          (new_RamarisClient \<lparr>ClientOptions.apiKey = ''rms_key'', baseUrl = Some ''https://x/v1/''\<rparr>)
          ''/strategies'' None) =
     Inl (Ramaris \<lparr>name = ''RamarisError'', message = ''https://x/v1/strategies'',
                   code = ''NETWORK_ERROR'', status = 0, retryAfter = None\<rparr>)"
  using baseUrl_trailing_slashes_stripped
     [where s = "''https://staging.ramaris.app/api/v1//''" and key = "''rms_key''"
      and toStr = String_number and parseInt = parseInt_number
      and fetch = "(\<lambda>url init. Inl (ErrorInstance url)) :: (string, number) fetch"
      and this = example_client and path = "''/strategies''" and params = None
      and ?fetch1.0 = "\<lambda>url init. Inr response_200_single"
      and ?fetch2.0 = "\<lambda>url init. Inr response_200_page"]
  by (simp add: request_rejected new_RamarisError_def)

subsection \<open>Network failures and the snapshot\<close>

text \<open>
  C9. When \<^verbatim>\<open>fetch\<close> itself fails, the client after the call is the client before it: the
  snapshot is not touched. Only a call that obtained a response can change the snapshot.
\<close>

theorem rejected_fetch_keeps_snapshot:
  "(\<forall>err. fetch (buildUrl toStr this path params) (requestInit this) = Inl err \<longrightarrow>
      snd (request parseInt toStr fetch this path params) = this) \<and>
   (rateLimit (snd (request parseInt toStr fetch this path params)) \<noteq> rateLimit this \<longrightarrow>
      (\<exists>response. fetch (buildUrl toStr this path params) (requestInit this) = Inr response))"
proof (cases "fetch (buildUrl toStr this path params) (requestInit this)")
  case (Inl err)
  then show ?thesis by (simp add: request_rejected)
next
  case (Inr response)
  then show ?thesis by simp
qed

theorem rejected_fetch_keeps_snapshot_witness:
  "snd (request parseInt_number String_number ((\<lambda>url init. Inl (ErrorInstance ''Failed to fetch'')) :: (string, number) fetch)
          example_client_limited ''/strategies'' None) = example_client_limited \<and>
   rateLimit example_client_limited =
     Some \<lparr>limit = Num 1000, remaining = Num 950, reset = Num 1700000000\<rparr>"
  using rejected_fetch_keeps_snapshot
     [of "(\<lambda>url init. Inl (ErrorInstance ''Failed to fetch'')) :: (string, number) fetch" String_number
      example_client_limited "''/strategies''" None parseInt_number]
  by (simp add: example_client_limited_def)

subsection \<open>The content type of an error body\<close>

text \<open>
  C10. \<^verbatim>\<open>handleErrorResponse\<close> reads the body only when the \<^verbatim>\<open>content-type\<close> header contains
  the substring \<^verbatim>\<open>application/json\<close>. Under any other content type (also
  \<^verbatim>\<open>application/problem+json\<close> and \<^verbatim>\<open>text/json\<close>) and without the header, the body is ignored,
  whatever it is: \<^verbatim>\<open>body\<close> stays \<^verbatim>\<open>null\<close>, and the three extracted values are their defaults, the
  code \<^verbatim>\<open>UNKNOWN_ERROR\<close>, the message \<^verbatim>\<open>HTTP\<close> with the status, and \<^verbatim>\<open>retryAfter\<close> 0; the error
  thrown is built from them (on a 429 it is the \<^verbatim>\<open>RateLimitError\<close> with \<^verbatim>\<open>retryAfter\<close> 0).
\<close>

theorem body_ignored_unless_application_json:
  fixes response :: "('t, 'n::zero) Response"
  assumes "\<forall>contentType. Response.headers response ''content-type'' = Some contentType \<longrightarrow>
             \<not> (\<exists>a b. contentType = a @ ''application/json'' @ b)"
  shows "errorBody (response\<lparr>json := body\<rparr>) = None \<and>
         nullish (errorBody (response\<lparr>json := body\<rparr>) \<bind> error \<bind> ErrorDetail.code)
           ''UNKNOWN_ERROR'' = ''UNKNOWN_ERROR'' \<and>
         nullish (errorBody (response\<lparr>json := body\<rparr>) \<bind> error \<bind> ErrorDetail.message)
           (''HTTP '' @ String_nat (Response.status response)) =
           ''HTTP '' @ String_nat (Response.status response) \<and>
         nullish (errorBody (response\<lparr>json := body\<rparr>) \<bind> error \<bind> ErrorDetail.retryAfter)
           (0 :: 'n) = 0 \<and>
         handleErrorResponse (response\<lparr>json := body\<rparr>) =
           (if Response.status response = 429
            then \<lparr>name = ''RateLimitError'', message = ''HTTP 429'', code = ''RATE_LIMITED'',
                  status = 429, retryAfter = Some 0\<rparr>
            else \<lparr>name = ''RamarisError'',
                  message = ''HTTP '' @ String_nat (Response.status response),
                  code = ''UNKNOWN_ERROR'', status = Response.status response,
                  retryAfter = None\<rparr>)"
proof -
  have "errorBody (response\<lparr>json := body\<rparr>) = None"
    using assms by (intro errorBody_not_json) simp
  then show ?thesis
    by (simp add: handleErrorResponse_no_body nullish_def)
qed

theorem body_ignored_unless_application_json_witness:
  "handleErrorResponse response_400_problem_json =
     \<lparr>name = ''RamarisError'', message = ''HTTP 400'', code = ''UNKNOWN_ERROR'', status = 400,
      retryAfter = None\<rparr> \<and>
   handleErrorResponse response_429_text_json =
     \<lparr>name = ''RateLimitError'', message = ''HTTP 429'', code = ''RATE_LIMITED'', status = 429,
      retryAfter = Some (Num 0)\<rparr>"
proof -
  have h1: "\<forall>contentType.
      Response.headers response_400_problem_json ''content-type'' = Some contentType \<longrightarrow>
      \<not> (\<exists>a b. contentType = a @ ''application/json'' @ b)"
    using problem_json_no_match
    by (simp add: response_400_problem_json_def str_includes_iff)
  have h2: "\<forall>contentType.
      Response.headers response_429_text_json ''content-type'' = Some contentType \<longrightarrow>
      \<not> (\<exists>a b. contentType = a @ ''application/json'' @ b)"
    using text_json_no_match
    by (simp add: response_429_text_json_def str_includes_iff)
  have "handleErrorResponse response_400_problem_json =
     \<lparr>name = ''RamarisError'', message = ''HTTP 400'', code = ''UNKNOWN_ERROR'', status = 400,
      retryAfter = None\<rparr>"
    using body_ignored_unless_application_json [OF h1, of "json response_400_problem_json"]
    by (simp add: response_400_problem_json_def)
  moreover have "handleErrorResponse response_429_text_json =
     \<lparr>name = ''RateLimitError'', message = ''HTTP 429'', code = ''RATE_LIMITED'', status = 429,
      retryAfter = Some (Num 0)\<rparr>"
    using body_ignored_unless_application_json [OF h2, of "json response_429_text_json"]
    by (simp add: response_429_text_json_def zero_number_def)
  ultimately show ?thesis by simp
qed

end
